theory Spec2Isabelle
  imports Complex_Main "HOL-Library.Multiset"
begin

section \<open>Strings and decimal numerals\<close>

text \<open>
  JavaScript strings are modelled as \<^typ>\<open>string\<close>, lists of 8-bit characters.
  \<open>toUpperCase\<close> is exact on ASCII input. A character outside ASCII is left as it is
  and so is never a digit or a letter of the patterns below; JavaScript maps such a
  character to a character outside ASCII again or, for the sharp s, to \<open>SS\<close>, and no
  pattern below admits two adjacent letters, so the validation of an 8-bit string is the
  same. \<open>trim\<close> removes the white space of the 8-bit range (TAB, LF, VT, FF, CR, SPACE,
  NBSP) at both ends.
\<close>

definition is_digit :: "char \<Rightarrow> bool" where
  "is_digit c = (c \<in> set ''0123456789'')"

definition is_upper :: "char \<Rightarrow> bool" where
  "is_upper c = (c \<in> set ''ABCDEFGHIJKLMNOPQRSTUVWXYZ'')"

definition toUpperCase_char :: "char \<Rightarrow> char" where
  "toUpperCase_char c =
     (case map_of (zip ''abcdefghijklmnopqrstuvwxyz'' ''ABCDEFGHIJKLMNOPQRSTUVWXYZ'') c of
        Some u \<Rightarrow> u
      | None \<Rightarrow> c)"

definition toUpperCase :: "string \<Rightarrow> string" where
  "toUpperCase s = map toUpperCase_char s"

definition is_whitespace :: "char \<Rightarrow> bool" where
  "is_whitespace c = ((of_char c :: nat) \<in> set [9, 10, 11, 12, 13, 32, 160])"

definition trim :: "string \<Rightarrow> string" where
  "trim s = rev (dropWhile is_whitespace (rev (dropWhile is_whitespace s)))"

definition digit_val :: "char \<Rightarrow> nat" where
  "digit_val c = of_char c - 48"

text \<open>
  \<open>parseInt(s, 10)\<close> at its call sites, where a regular expression has already
  established that \<open>s\<close> is a non-empty string of decimal digits: the decimal value.
  Numbers are exact here; IEEE rounding above \<open>2^53\<close> is not modelled.
\<close>

definition parseInt :: "string \<Rightarrow> nat" where
  "parseInt s = foldl (\<lambda>n c. n * 10 + digit_val c) 0 s"

section \<open>Validation of Spanish tax identifiers\<close>

text \<open>
  \<open>validateSpanishID\<close> returns \<open>null\<close> (here \<open>None\<close>) for an accepted identifier and
  an error message otherwise. The three messages of the source are the constructors of
  \<open>IdError\<close>: \<open>NifIncorrecto e\<close> and \<open>NieIncorrecto e\<close> carry the expected letter
  that the message reports, \<open>FormatoInvalido\<close> is the message for an unrecognised shape.
\<close>

datatype IdError = NifIncorrecto char | NieIncorrecto char | FormatoInvalido

definition validChars :: string where
  "validChars = ''TRWAGMYFPDXBNJZSQVHLCKE''"

text \<open>The three anchored regular expressions, each of fixed width 9.\<close>

definition nifRegex :: "string \<Rightarrow> bool" where
  "nifRegex s = (length s = 9 \<and> list_all is_digit (take 8 s) \<and> is_upper (s ! 8))"

definition nieRegex :: "string \<Rightarrow> bool" where
  "nieRegex s = (length s = 9 \<and> s ! 0 \<in> set ''XYZ'' \<and>
     list_all is_digit (take 7 (drop 1 s)) \<and> is_upper (s ! 8))"

definition cifRegex :: "string \<Rightarrow> bool" where
  "cifRegex s = (length s = 9 \<and> s ! 0 \<in> set ''ABCDEFGHJKLMNPQRSUVW'' \<and>
     list_all is_digit (take 7 (drop 1 s)) \<and> s ! 8 \<in> set ''0123456789ABCDEFGHIJ'')"

definition nie_prefix :: "char \<Rightarrow> string \<Rightarrow> string" where
  "nie_prefix prefix numberStr =
     (let n1 = (if prefix = CHR ''X'' then CHR ''0'' # numberStr else numberStr);
          n2 = (if prefix = CHR ''Y'' then CHR ''1'' # n1 else n1);
          n3 = (if prefix = CHR ''Z'' then CHR ''2'' # n2 else n2)
      in n3)"

text \<open>
  The digit that stands for the leading letter of a NIE in the specification:
  \<open>X\<close> is 0, \<open>Y\<close> is 1, \<open>Z\<close> is 2.
\<close>

definition nie_digit :: "char \<Rightarrow> char" where
  "nie_digit p = (if p = CHR ''X'' then CHR ''0'' else if p = CHR ''Y'' then CHR ''1'' else CHR ''2'')"

definition validateSpanishID :: "string \<Rightarrow> IdError option" where
  "validateSpanishID v =
     (if v = [] then None
      else let str = trim (toUpperCase v) in
        if nifRegex str then
          (let number = parseInt (take 8 str);
               letter = str ! 8;
               expectedLetter = validChars ! (number mod 23)
           in if letter \<noteq> expectedLetter then Some (NifIncorrecto expectedLetter) else None)
        else if nieRegex str then
          (let number = parseInt (nie_prefix (str ! 0) (take 7 (drop 1 str)));
               letter = str ! 8;
               expectedLetter = validChars ! (number mod 23)
           in if letter \<noteq> expectedLetter then Some (NieIncorrecto expectedLetter) else None)
        else if cifRegex str then None
        else Some FormatoInvalido)"

section \<open>Numbers\<close>

text \<open>
  A JavaScript \<open>number\<close> that holds an amount or a rate is modelled as an exact rational
  or one of the three non-finite values. Arithmetic on finite values is exact: the rounding
  of IEEE doubles and the sign of zero are not modelled. The non-finite values follow
  IEEE 754: \<open>NaN\<close> absorbs, \<open>Infinity - Infinity\<close> is \<open>NaN\<close>, and every comparison
  with \<open>NaN\<close> is false.
\<close>

datatype jsnum = Fin rat | PInf | NInf | NaN

instantiation jsnum :: "{comm_monoid_add, uminus, minus, times}"
begin

definition zero_jsnum :: jsnum where
  "zero_jsnum = Fin 0"

fun plus_jsnum :: "jsnum \<Rightarrow> jsnum \<Rightarrow> jsnum" where
  "plus_jsnum (Fin a) (Fin b) = Fin (a + b)"
| "plus_jsnum NaN _ = NaN"
| "plus_jsnum _ NaN = NaN"
| "plus_jsnum PInf NInf = NaN"
| "plus_jsnum NInf PInf = NaN"
| "plus_jsnum PInf _ = PInf"
| "plus_jsnum _ PInf = PInf"
| "plus_jsnum NInf _ = NInf"
| "plus_jsnum _ NInf = NInf"

fun uminus_jsnum :: "jsnum \<Rightarrow> jsnum" where
  "uminus_jsnum (Fin a) = Fin (- a)"
| "uminus_jsnum PInf = NInf"
| "uminus_jsnum NInf = PInf"
| "uminus_jsnum NaN = NaN"

definition minus_jsnum :: "jsnum \<Rightarrow> jsnum \<Rightarrow> jsnum" where
  "minus_jsnum a b = a + (- b)"

fun times_jsnum :: "jsnum \<Rightarrow> jsnum \<Rightarrow> jsnum" where
  "times_jsnum (Fin a) (Fin b) = Fin (a * b)"
| "times_jsnum NaN _ = NaN"
| "times_jsnum _ NaN = NaN"
| "times_jsnum (Fin a) PInf = (if a > 0 then PInf else if a < 0 then NInf else NaN)"
| "times_jsnum (Fin a) NInf = (if a > 0 then NInf else if a < 0 then PInf else NaN)"
| "times_jsnum PInf (Fin b) = (if b > 0 then PInf else if b < 0 then NInf else NaN)"
| "times_jsnum NInf (Fin b) = (if b > 0 then NInf else if b < 0 then PInf else NaN)"
| "times_jsnum PInf PInf = PInf"
| "times_jsnum NInf NInf = PInf"
| "times_jsnum PInf NInf = NInf"
| "times_jsnum NInf PInf = NInf"

instance
proof
  fix x y z :: jsnum
  show "x + y = y + x"
    by (cases x; cases y) auto
  show "0 + x = x"
    by (cases x) (auto simp: zero_jsnum_def)
  show "x + y + z = x + (y + z)"
    by (cases x; cases y; cases z) auto
qed

end

text \<open>The comparison \<open>a > b\<close>.\<close>

fun jsgt :: "jsnum \<Rightarrow> jsnum \<Rightarrow> bool" where
  "jsgt (Fin a) (Fin b) = (a > b)"
| "jsgt PInf (Fin _) = True"
| "jsgt PInf NInf = True"
| "jsgt (Fin _) NInf = True"
| "jsgt _ _ = False"

fun Math_abs :: "jsnum \<Rightarrow> jsnum" where
  "Math_abs (Fin a) = Fin \<bar>a\<bar>"
| "Math_abs PInf = PInf"
| "Math_abs NInf = PInf"
| "Math_abs NaN = NaN"


section \<open>Invoices\<close>

datatype InvoiceType = INCOME | EXPENSE

text \<open>
  The engine reads an invoice's date only through \<open>new Date(inv.date)\<close> and its
  \<open>getFullYear()\<close> and \<open>getMonth()\<close>. The field \<open>date\<close> holds that \<open>Date\<close> object:
  \<open>InvalidDate\<close> when the string does not parse (both getters return \<open>NaN\<close>, here
  \<open>None\<close>), and otherwise the local year and the month index, which \<open>getMonth()\<close>
  keeps within \<open>0..11\<close>.
\<close>

datatype JsDate = InvalidDate | Date int int

fun getFullYear :: "JsDate \<Rightarrow> int option" where
  "getFullYear InvalidDate = None"
| "getFullYear (Date y m) = Some y"

fun getMonth :: "JsDate \<Rightarrow> int option" where
  "getMonth InvalidDate = None"
| "getMonth (Date y m) = Some m"

text \<open>
  The fields of \<open>Invoice\<close> that the fiscal engine reads. \<open>deductible\<close> is optional
  in the source (\<open>None\<close> is \<open>undefined\<close>, which is falsy).
\<close>

record Invoice =
  id' :: string
  number :: string
  date :: JsDate
  type :: InvoiceType
  nif :: string
  entityName :: string
  baseAmount :: jsnum
  ivaRate :: jsnum
  ivaAmount :: jsnum
  irpfRate :: jsnum
  irpfAmount :: jsnum
  totalAmount :: jsnum
  deductible :: "bool option"

section \<open>Sequential document numbers\<close>











section \<open>Objects used as dictionaries\<close>

text \<open>
  The reducers of the aggregator collect groups in an object literal \<open>{}\<close>. Its own
  properties are an association list in insertion order. \<open>Object.entries\<close> lists the
  keys that are array indices (canonical numerals below \<open>2^32 - 1\<close>) first, in ascending
  order, and then every other key in insertion order.
\<close>

definition own :: "('k \<times> 'v) list \<Rightarrow> 'k \<Rightarrow> 'v option" where
  "own acc k = map_of acc k"

definition modify :: "('k \<times> 'v) list \<Rightarrow> 'k \<Rightarrow> ('v \<Rightarrow> 'v) \<Rightarrow> ('k \<times> 'v) list" where
  "modify acc k f = map (\<lambda>(k', v). if k' = k then (k', f v) else (k', v)) acc"

definition index_key :: "('k \<Rightarrow> nat option) \<Rightarrow> 'k \<times> 'v \<Rightarrow> nat" where
  "index_key idx e = (case idx (fst e) of Some n \<Rightarrow> n | None \<Rightarrow> 0)"

definition Object_entries :: "('k \<Rightarrow> nat option) \<Rightarrow> ('k \<times> 'v) list \<Rightarrow> ('k \<times> 'v) list" where
  "Object_entries idx acc =
     sort_key (index_key idx) (filter (\<lambda>e. idx (fst e) \<noteq> None) acc)
     @ filter (\<lambda>e. idx (fst e) = None) acc"

text \<open>
  A number used as a property key is converted to its numeral, and \<open>Number(key)\<close>
  converts it back; distinct numbers have distinct numerals, so the model keys the object
  by the number itself. The key is an array index when the number is a non-negative
  integer below \<open>2^32 - 1\<close>.
\<close>

definition array_index_of_number :: "jsnum \<Rightarrow> nat option" where
  "array_index_of_number x =
     (case x of
        Fin r \<Rightarrow> (if of_int \<lfloor>r\<rfloor> = r \<and> 0 \<le> r \<and> r < 4294967295 then Some (nat \<lfloor>r\<rfloor>) else None)
      | _ \<Rightarrow> None)"

definition array_index_of_string :: "string \<Rightarrow> nat option" where
  "array_index_of_string s =
     (if s \<noteq> [] \<and> list_all is_digit s \<and> (s = ''0'' \<or> hd s \<noteq> CHR ''0'') \<and> parseInt s < 4294967295
      then Some (parseInt s) else None)"

text \<open>
  The names that \<open>{}\<close> inherits from \<open>Object.prototype\<close>. For such a key \<open>k\<close> the test
  \<open>!acc[k]\<close> is false although \<open>acc\<close> has no own property \<open>k\<close>, and an assignment to
  \<open>acc[k].total\<close> lands on the inherited object.
\<close>

definition Object_prototype_keys :: "string list" where
  "Object_prototype_keys =
     [''constructor'', ''__defineGetter__'', ''__defineSetter__'', ''hasOwnProperty'',
      ''__lookupGetter__'', ''__lookupSetter__'', ''isPrototypeOf'', ''propertyIsEnumerable'',
      ''toString'', ''valueOf'', ''__proto__'', ''toLocaleString'']"

text \<open>
  \<open>Array.prototype.sort\<close> with a comparator is stable. The model is the stable insertion
  sort: \<open>x\<close> goes behind \<open>y\<close> exactly when \<open>cmp x y > 0\<close> (a comparator result \<open>NaN\<close>
  counts as \<open>0\<close>). For a consistent comparator every stable sort returns this array.
\<close>

fun insert_by :: "('a \<Rightarrow> 'a \<Rightarrow> jsnum) \<Rightarrow> 'a \<Rightarrow> 'a list \<Rightarrow> 'a list" where
  "insert_by cmp x [] = [x]"
| "insert_by cmp x (y # ys) = (if jsgt (cmp x y) 0 then y # insert_by cmp x ys else x # y # ys)"

definition sort_by :: "('a \<Rightarrow> 'a \<Rightarrow> jsnum) \<Rightarrow> 'a list \<Rightarrow> 'a list" where
  "sort_by cmp xs = foldr (insert_by cmp) xs []"

section \<open>The fiscal aggregator\<close>

text \<open>
  \<open>calculations\<close> of the component \<open>TaxModels\<close>, for the year \<open>currentYear\<close> (read
  from the clock in the source). The list \<open>model190List\<close>, which no property below refers
  to, is left out.
\<close>

definition truthy :: "bool option \<Rightarrow> bool" where
  "truthy b = (b = Some True)"

text \<open>\<open>xs.reduce((sum, i) => sum + f(i), 0)\<close>\<close>

definition reduce_sum :: "('a \<Rightarrow> jsnum) \<Rightarrow> 'a list \<Rightarrow> jsnum" where
  "reduce_sum f xs = foldl (\<lambda>sum i. sum + f i) 0 xs"

definition in_year :: "int \<Rightarrow> Invoice \<Rightarrow> bool" where
  "in_year currentYear iv = (getFullYear (date iv) = Some currentYear)"

definition yearInvoices :: "int \<Rightarrow> Invoice list \<Rightarrow> Invoice list" where
  "yearInvoices currentYear invoices = filter (in_year currentYear) invoices"

definition incomes :: "Invoice list \<Rightarrow> Invoice list" where
  "incomes invs = filter (\<lambda>i. type i = INCOME) invs"

definition expenses :: "Invoice list \<Rightarrow> Invoice list" where
  "expenses invs = filter (\<lambda>i. type i = EXPENSE \<and> truthy (deductible i)) invs"

record Desglose =
  base :: jsnum
  quota :: jsnum

record DesgloseItem = Desglose +
  rate :: jsnum

definition desglose_step :: "(jsnum \<times> Desglose) list \<Rightarrow> Invoice \<Rightarrow> (jsnum \<times> Desglose) list" where
  "desglose_step acc iv =
     (let r = ivaRate iv;
          acc1 = (if own acc r = None then acc @ [(r, \<lparr>base = 0, quota = 0\<rparr>)] else acc)
      in modify acc1 r
           (\<lambda>d. d\<lparr>base := base d + baseAmount iv, quota := quota d + ivaAmount iv\<rparr>))"

definition desgloseSoportado :: "Invoice list \<Rightarrow> (jsnum \<times> Desglose) list" where
  "desgloseSoportado exps = foldl desglose_step [] exps"

definition listadoDesglose :: "Invoice list \<Rightarrow> DesgloseItem list" where
  "listadoDesglose exps =
     sort_by (\<lambda>a b. rate b - rate a)
       (map (\<lambda>(r, d). \<lparr>base = base d, quota = quota d, rate = r\<rparr>)
          (Object_entries array_index_of_number (desgloseSoportado exps)))"


text \<open>
  The value of a group of \<open>operationsByNif\<close>. Its fields \<open>total\<close> and \<open>type\<close> are
  \<open>total'\<close> and \<open>op_type\<close> here, and the \<open>nif\<close> of an item of the list is \<open>op_nif\<close>.
\<close>

record Operation =
  name :: string
  total' :: jsnum
  op_type :: InvoiceType

record Model347Item = Operation +
  op_nif :: string

definition operations_step :: "(string \<times> Operation) list \<Rightarrow> Invoice \<Rightarrow> (string \<times> Operation) list" where
  "operations_step acc cur =
     (if nif cur \<in> set Object_prototype_keys then acc
      else let acc1 = (if own acc (nif cur) = None
                       then acc @ [(nif cur, \<lparr>name = entityName cur, total' = 0, op_type = type cur\<rparr>)]
                       else acc)
           in modify acc1 (nif cur) (\<lambda>d. d\<lparr>total' := total' d + Math_abs (totalAmount cur)\<rparr>))"

definition operationsByNif :: "Invoice list \<Rightarrow> (string \<times> Operation) list" where
  "operationsByNif invs = foldl operations_step [] invs"

definition model347 :: "Invoice list \<Rightarrow> Model347Item list" where
  "model347 invs =
     map (\<lambda>(k, d). \<lparr>name = name d, total' = total' d, op_type = op_type d, op_nif = k\<rparr>)
       (filter (\<lambda>(k, d). jsgt (total' d) (Fin (300506 / 100)))
          (Object_entries array_index_of_string (operationsByNif invs)))"






record Calculations =
  ivaDevengado :: jsnum
  baseDevengado :: jsnum
  ivaSoportado :: jsnum
  baseSoportado :: jsnum
  listadoDesgloseSoportado :: "DesgloseItem list"
  result303 :: jsnum
  totalIngresos :: jsnum
  totalGastos :: jsnum
  rendimientoNeto :: jsnum
  pagoTeorico :: jsnum
  retencionesSoportadas :: jsnum
  resultadoIrpfAnual :: jsnum
  retencionesPracticadas :: jsnum
  model347List :: "Model347Item list"

definition calculations :: "int \<Rightarrow> Invoice list \<Rightarrow> Calculations" where
  "calculations currentYear invoices =
     (let ys = yearInvoices currentYear invoices;
          ins = incomes ys;
          exps = expenses ys;
          ivaDev = reduce_sum ivaAmount ins;
          baseDev = reduce_sum baseAmount ins;
          ivaSop = reduce_sum ivaAmount exps;
          baseSop = reduce_sum baseAmount exps;
          ingresosT = reduce_sum baseAmount ins;
          gastosT = reduce_sum baseAmount exps;
          rendNeto = ingresosT - gastosT;
          pagoT = (if jsgt rendNeto 0 then rendNeto * Fin (1 / 5) else 0);
          retSop = reduce_sum irpfAmount ins
      in \<lparr>ivaDevengado = ivaDev,
          baseDevengado = baseDev,
          ivaSoportado = ivaSop,
          baseSoportado = baseSop,
          listadoDesgloseSoportado = listadoDesglose exps,
          result303 = ivaDev - ivaSop,
          totalIngresos = ingresosT,
          totalGastos = gastosT,
          rendimientoNeto = rendNeto,
          pagoTeorico = pagoT,
          retencionesSoportadas = retSop,
          resultadoIrpfAnual = pagoT - retSop,
          retencionesPracticadas = reduce_sum irpfAmount exps,
          model347List = model347 ys\<rparr>)"

text \<open>
  One row of \<open>quarterData\<close> in \<open>generatePDFReport\<close>: the figures of quarter \<open>q\<close>,
  whose invoices are those of the year with \<open>getMonth()\<close> between \<open>(q - 1) * 3\<close> and
  \<open>(q - 1) * 3 + 2\<close>. The report has a row for each quarter up to the current one.
\<close>

record QuarterData =
  q_number :: int
  devengado :: jsnum
  soportado :: jsnum
  res303 :: jsnum
  ingresos :: jsnum
  gastos :: jsnum
  rend :: jsnum
  pagoCuenta :: jsnum
  retenciones :: jsnum
  result130 :: jsnum
  retencionesPracticadas_q :: jsnum

definition in_quarter :: "int \<Rightarrow> int \<Rightarrow> Invoice \<Rightarrow> bool" where
  "in_quarter currentYear q iv =
     (let startMonth = (q - 1) * 3;
          endMonth = startMonth + 2
      in getFullYear (date iv) = Some currentYear \<and>
         (case getMonth (date iv) of
            None \<Rightarrow> False
          | Some m \<Rightarrow> m \<ge> startMonth \<and> m \<le> endMonth))"

definition qInvoices :: "int \<Rightarrow> Invoice list \<Rightarrow> int \<Rightarrow> Invoice list" where
  "qInvoices currentYear invoices q = filter (in_quarter currentYear q) invoices"


definition quarterRow :: "int \<Rightarrow> Invoice list \<Rightarrow> int \<Rightarrow> QuarterData" where
  "quarterRow currentYear invoices q =
     (let qIncomes = incomes (qInvoices currentYear invoices q);
          qExpenses = expenses (qInvoices currentYear invoices q);
          dev = reduce_sum ivaAmount qIncomes;
          sop = reduce_sum ivaAmount qExpenses;
          ing = reduce_sum baseAmount qIncomes;
          gas = reduce_sum baseAmount qExpenses;
          rnd = ing - gas;
          pago = (if jsgt rnd 0 then rnd * Fin (1 / 5) else 0);
          ret = reduce_sum irpfAmount qIncomes
      in \<lparr>q_number = q,
          devengado = dev,
          soportado = sop,
          res303 = dev - sop,
          ingresos = ing,
          gastos = gas,
          rend = rnd,
          pagoCuenta = pago,
          retenciones = ret,
          result130 = pago - ret,
          retencionesPracticadas_q = reduce_sum irpfAmount qExpenses\<rparr>)"

definition quarterData :: "int \<Rightarrow> int \<Rightarrow> Invoice list \<Rightarrow> QuarterData list" where
  "quarterData currentYear currentQuarter invoices =
     map (quarterRow currentYear invoices) (filter (\<lambda>q. q \<le> currentQuarter) [1, 2, 3, 4])"




section \<open>Writing to the store\<close>

text \<open>
  The store is the list \<open>invoices\<close> of the application state. \<open>handleSubmit\<close> saves
  the form: \<open>form\<close> carries the fields typed by the user and the amounts computed from
  them, \<open>editingId\<close> is the id of the invoice being edited (if any), \<open>uuid\<close> is the
  value of \<open>crypto.randomUUID()\<close>, and \<open>confirmed\<close> the answer to \<open>window.confirm\<close>.
  The result is the outcome shown to the user and the new store.
\<close>

datatype Tab = TabIncome | TabExpense | TabList

datatype SubmitResult = NifErrorAlert | DuplicateAlert | EditSaved | EditDeclined | Created

definition truthy_string :: "string option \<Rightarrow> bool" where
  "truthy_string s = (case s of None \<Rightarrow> False | Some v \<Rightarrow> v \<noteq> [])"

definition invoiceData :: "string option \<Rightarrow> Tab \<Rightarrow> string \<Rightarrow> Invoice \<Rightarrow> Invoice" where
  "invoiceData editingId activeTab uuid form =
     form\<lparr>id' := (if truthy_string editingId then the editingId else uuid),
          type := (if activeTab = TabIncome then INCOME else EXPENSE),
          deductible := (if activeTab = TabExpense then deductible form else None)\<rparr>"

definition find_duplicate :: "Invoice list \<Rightarrow> Invoice \<Rightarrow> Invoice option" where
  "find_duplicate invoices d =
     find (\<lambda>i. number i = number d \<and> type i = type d \<and> id' i \<noteq> id' d) invoices"

definition handleSubmit ::
  "Invoice list \<Rightarrow> bool \<Rightarrow> string option \<Rightarrow> Tab \<Rightarrow> string \<Rightarrow> bool \<Rightarrow> Invoice \<Rightarrow> SubmitResult \<times> Invoice list" where
  "handleSubmit invoices nifError editingId activeTab uuid confirmed form =
     (if nifError then (NifErrorAlert, invoices)
      else let d = invoiceData editingId activeTab uuid form in
        if find_duplicate invoices d \<noteq> None then (DuplicateAlert, invoices)
        else if truthy_string editingId then
          (if confirmed
           then (EditSaved, map (\<lambda>iv. if Some (id' iv) = editingId then d else iv) invoices)
           else (EditDeclined, invoices))
        else (Created, invoices @ [d]))"

text \<open>
  \<open>handleBulkImport\<close>: \<open>parsed\<close> is the result of \<open>parseFile\<close> (\<open>None\<close> when it
  rejects), \<open>confirmed\<close> the answer to \<open>window.confirm\<close>.
\<close>

definition handleBulkImport :: "Invoice list \<Rightarrow> Invoice list option \<Rightarrow> bool \<Rightarrow> Invoice list" where
  "handleBulkImport invoices parsed confirmed =
     (case parsed of
        None \<Rightarrow> invoices
      | Some newInvoices \<Rightarrow>
          if newInvoices = [] then invoices
          else if confirmed then invoices @ newInvoices
          else invoices)"

text \<open>The store invariant: no two stored invoices have the same kind and number.\<close>

definition unique_numbers :: "Invoice list \<Rightarrow> bool" where
  "unique_numbers invoices = distinct (map (\<lambda>i. (type i, number i)) invoices)"

section \<open>Example data\<close>

text \<open>An invoice with empty fields, from which the examples below are built by update.\<close>

definition blank_invoice :: Invoice where
  "blank_invoice =
     \<lparr>id' = [], number = [], date = InvalidDate, type = INCOME, nif = [], entityName = [],
      baseAmount = 0, ivaRate = 0, ivaAmount = 0, irpfRate = 0, irpfAmount = 0, totalAmount = 0,
      deductible = None\<rparr>"








text \<open>Three deductible expenses of 2025, at the rates 10, 21 and 21.\<close>

definition example_expenses :: "Invoice list" where
  "example_expenses =
     [blank_invoice\<lparr>date := Date 2025 0, type := EXPENSE, deductible := Some True,
                    ivaRate := Fin 10, baseAmount := Fin 50, ivaAmount := Fin 5\<rparr>,
      blank_invoice\<lparr>date := Date 2025 4, type := EXPENSE, deductible := Some True,
                    ivaRate := Fin 21, baseAmount := Fin 100, ivaAmount := Fin 21\<rparr>,
      blank_invoice\<lparr>date := Date 2025 7, type := EXPENSE, deductible := Some True,
                    ivaRate := Fin 21, baseAmount := Fin 200, ivaAmount := Fin 42\<rparr>]"



text \<open>
  Two stored invoices, and a row of an imported file that repeats the number of the first.
\<close>

definition stored_1 :: Invoice where
  "stored_1 = blank_invoice\<lparr>id' := ''1'', number := ''A-25-1''\<rparr>"

definition stored_2 :: Invoice where
  "stored_2 = blank_invoice\<lparr>id' := ''2'', number := ''A-25-2''\<rparr>"

definition imported_row :: Invoice where
  "imported_row = blank_invoice\<lparr>id' := ''3'', number := ''A-25-1'', entityName := ''Other''\<rparr>"

section \<open>Properties of the validator\<close>

lemma trim_toUpperCase_Nil: "trim (toUpperCase []) = []"
  by (simp add: trim_def toUpperCase_def)

lemma nifRegex_snoc:
  "length ds = 8 \<Longrightarrow> nifRegex (ds @ [c]) = (list_all is_digit ds \<and> is_upper c)"
  by (simp add: nifRegex_def nth_append)

lemma not_digit_XYZ: "p \<in> set ''XYZ'' \<Longrightarrow> \<not> is_digit p"
  by (auto simp: is_digit_def)

lemma nifRegex_letter_first: "\<not> is_digit p \<Longrightarrow> \<not> nifRegex (p # s)"
  by (auto simp: nifRegex_def take_Cons')

lemma nieRegex_shape:
  "length ds = 7 \<Longrightarrow> nieRegex (p # ds @ [c]) = (p \<in> set ''XYZ'' \<and> list_all is_digit ds \<and> is_upper c)"
  by (simp add: nieRegex_def nth_append)

lemma nie_prefix_digit: "p \<in> set ''XYZ'' \<Longrightarrow> nie_prefix p ds = nie_digit p # ds"
  by (auto simp: nie_prefix_def nie_digit_def)

text \<open>
  Claim C2. For every input whose upper-cased and trimmed form is eight digits \<open>ds\<close>
  followed by a letter \<open>c\<close>, \<open>validateSpanishID\<close> accepts the input if and only if
  \<open>c\<close> is the letter of \<open>TRWAGMYFPDXBNJZSQVHLCKE\<close> at position \<open>number mod 23\<close>, and
  otherwise reports a wrong NIF together with that expected letter. For a NIE (a leading
  \<open>X\<close>, \<open>Y\<close> or \<open>Z\<close>, seven digits and a letter) the same check applies to the number
  read after the leading letter is replaced by the digit 0, 1 or 2.
\<close>

theorem validate_checksum:
  "validChars = ''TRWAGMYFPDXBNJZSQVHLCKE'' \<and>
   (trim (toUpperCase v) = ds @ [c] \<and> length ds = 8 \<and> list_all is_digit ds \<and> is_upper c \<longrightarrow>
      validateSpanishID v =
        (if c = validChars ! (parseInt ds mod 23) then None
         else Some (NifIncorrecto (validChars ! (parseInt ds mod 23))))) \<and>
   (trim (toUpperCase v) = p # ds' @ [c'] \<and> p \<in> set ''XYZ'' \<and> length ds' = 7 \<and>
    list_all is_digit ds' \<and> is_upper c' \<longrightarrow>
      validateSpanishID v =
        (if c' = validChars ! (parseInt (nie_digit p # ds') mod 23) then None
         else Some (NieIncorrecto (validChars ! (parseInt (nie_digit p # ds') mod 23)))))"
proof (intro conjI impI)
  show "validChars = ''TRWAGMYFPDXBNJZSQVHLCKE''"
    by (simp add: validChars_def)
next
  assume a: "trim (toUpperCase v) = ds @ [c] \<and> length ds = 8 \<and> list_all is_digit ds \<and> is_upper c"
  then have ne: "v \<noteq> []"
    using trim_toUpperCase_Nil by auto
  from a have re: "nifRegex (trim (toUpperCase v))"
    by (simp add: nifRegex_snoc)
  from a have parts: "take 8 (trim (toUpperCase v)) = ds" "trim (toUpperCase v) ! 8 = c"
    by (simp_all add: nth_append)
  show "validateSpanishID v =
        (if c = validChars ! (parseInt ds mod 23) then None
         else Some (NifIncorrecto (validChars ! (parseInt ds mod 23))))"
    using ne re parts by (simp add: validateSpanishID_def Let_def)
next
  assume a: "trim (toUpperCase v) = p # ds' @ [c'] \<and> p \<in> set ''XYZ'' \<and> length ds' = 7 \<and>
    list_all is_digit ds' \<and> is_upper c'"
  then have ne: "v \<noteq> []"
    using trim_toUpperCase_Nil by auto
  from a have nonif: "\<not> nifRegex (trim (toUpperCase v))"
    using nifRegex_letter_first not_digit_XYZ by simp
  from a have re: "nieRegex (trim (toUpperCase v))"
    by (simp add: nieRegex_shape)
  from a have parts: "take 7 (drop 1 (trim (toUpperCase v))) = ds'" "trim (toUpperCase v) ! 8 = c'"
    "trim (toUpperCase v) ! 0 = p"
    by (simp_all add: nth_append)
  from a have pre: "nie_prefix p ds' = nie_digit p # ds'"
    by (simp add: nie_prefix_digit)
  show "validateSpanishID v =
        (if c' = validChars ! (parseInt (nie_digit p # ds') mod 23) then None
         else Some (NieIncorrecto (validChars ! (parseInt (nie_digit p # ds') mod 23))))"
    using ne nonif re parts pre by (simp add: validateSpanishID_def Let_def)
qed

lemma norm_ex1: "trim (toUpperCase ''12345678z'') = ''12345678'' @ [CHR ''Z'']"
  by (simp add: toUpperCase_def toUpperCase_char_def trim_def is_whitespace_def)

lemma norm_ex2: "trim (toUpperCase '' x1234567a '') = CHR ''X'' # ''1234567'' @ [CHR ''A'']"
  by (simp add: toUpperCase_def toUpperCase_char_def trim_def is_whitespace_def)

lemma digits_ex1: "list_all is_digit ''12345678''" "list_all is_digit ''1234567''"
  by (simp_all add: is_digit_def)

lemma letter_ex1: "validChars ! (parseInt ''12345678'' mod 23) = CHR ''Z''"
  by (simp add: validChars_def parseInt_def digit_val_def)

lemma letter_ex2: "validChars ! (parseInt (nie_digit (CHR ''X'') # ''1234567'') mod 23) = CHR ''L''"
  by (simp add: validChars_def parseInt_def digit_val_def nie_digit_def)

text \<open>
  The claim at two inputs: the NIF \<open>12345678z\<close> with the right letter, and the NIE
  \<open>x1234567a\<close> between blanks, whose letter should be \<open>L\<close>.
\<close>

theorem validate_checksum_witness:
  "validateSpanishID ''12345678z'' = None \<and>
   validateSpanishID '' x1234567a '' = Some (NieIncorrecto (CHR ''L''))"
proof -
  have up: "is_upper (CHR ''Z'')" "is_upper (CHR ''A'')"
    by (simp_all add: is_upper_def)
  have 1: "validateSpanishID ''12345678z'' = None"
    using validate_checksum [of "''12345678z''" "''12345678''" "CHR ''Z''"] norm_ex1 digits_ex1 up letter_ex1
    by simp
  have 2: "validateSpanishID '' x1234567a '' = Some (NieIncorrecto (CHR ''L''))"
    using validate_checksum [of "'' x1234567a ''" _ _ "CHR ''X''" "''1234567''" "CHR ''A''"]
      norm_ex2 digits_ex1 up letter_ex2
    by simp
  show ?thesis using 1 2 by simp
qed

text \<open>
  Claim C3 as stated fails at the empty string: it matches none of the three shapes, and
  the guard \<open>if (!value) return null\<close> accepts it.
\<close>

theorem validate_empty_accepted:
  "validateSpanishID [] = None \<and>
   \<not> nifRegex (trim (toUpperCase [])) \<and> \<not> nieRegex (trim (toUpperCase [])) \<and>
   \<not> cifRegex (trim (toUpperCase []))"
  by (simp add: validateSpanishID_def trim_toUpperCase_Nil nifRegex_def nieRegex_def cifRegex_def)

text \<open>
  Claim C3, amended. Every non-empty input whose upper-cased and trimmed form matches none
  of the three shapes is rejected with the message for an unrecognised format; the empty
  string is accepted.
\<close>

theorem validate_unrecognized:
  "(v \<noteq> [] \<and> \<not> nifRegex (trim (toUpperCase v)) \<and> \<not> nieRegex (trim (toUpperCase v)) \<and>
    \<not> cifRegex (trim (toUpperCase v)) \<longrightarrow> validateSpanishID v = Some FormatoInvalido) \<and>
   validateSpanishID [] = None"
  by (simp add: validateSpanishID_def Let_def)

lemma norm_ex3: "trim (toUpperCase '' '') = []"
  by (simp add: toUpperCase_def toUpperCase_char_def trim_def is_whitespace_def)

text \<open>
  A single blank is not empty, and trims to a string of no recognised shape.
\<close>

theorem validate_unrecognized_witness:
  "validateSpanishID '' '' = Some FormatoInvalido"
  using validate_unrecognized [of "'' ''"]
  by (simp add: norm_ex3 nifRegex_def nieRegex_def cifRegex_def)

section \<open>Properties of the sequencer\<close>



























section \<open>Properties of the aggregator\<close>

subsection \<open>Sums\<close>

























subsection \<open>Objects\<close>











subsection \<open>The breakdown of input VAT by rate\<close>

























lemma example_expenses_year:
  "expenses (yearInvoices 2025 example_expenses) = example_expenses"
  by (simp add: expenses_def yearInvoices_def in_year_def truthy_def example_expenses_def blank_invoice_def)




text \<open>
  The breakdown of the same three expenses, computed.
\<close>

lemma example_expenses_listado:
  "listadoDesgloseSoportado (calculations 2025 example_expenses) =
     [\<lparr>base = Fin 300, quota = Fin 63, rate = Fin 21\<rparr>,
      \<lparr>base = Fin 50, quota = Fin 5, rate = Fin 10\<rparr>]"
  by (simp add: calculations_def Let_def example_expenses_year)
     (simp add: listadoDesglose_def desgloseSoportado_def example_expenses_def blank_invoice_def
        desglose_step_def own_def modify_def Object_entries_def array_index_of_number_def
        index_key_def sort_by_def zero_jsnum_def minus_jsnum_def Let_def)

subsection \<open>Operations by counterparty\<close>























subsection \<open>Non-finite amounts\<close>



















section \<open>Properties of the store\<close>

lemma find_duplicate_iff:
  "(find_duplicate invoices d \<noteq> None) =
     (\<exists>i \<in> set invoices. number i = number d \<and> type i = type d \<and> id' i \<noteq> id' d)"
  by (auto simp: find_duplicate_def find_None_iff)

lemma replace_keeps_distinct:
  assumes "distinct (map k xs)" "distinct (map f xs)"
    and "\<forall>i \<in> set xs. f i \<noteq> e \<longrightarrow> k i \<noteq> k d"
  shows "distinct (map k (map (\<lambda>i. if f i = e then d else i) xs))"
  using assms
proof (induction xs)
  case Nil
  then show ?case by simp
next
  case (Cons x xs)
  then have IH: "distinct (map k (map (\<lambda>i. if f i = e then d else i) xs))"
    by simp
  show ?case
  proof (cases "f x = e")
    case True
    with Cons.prems(2) have ne: "\<forall>i \<in> set xs. f i \<noteq> e"
      by (auto simp: image_iff)
    then have same: "map (\<lambda>i. if f i = e then d else i) xs = xs"
      by (simp add: map_idI)
    have "k d \<notin> set (map k xs)"
      using Cons.prems(3) ne by (auto simp: image_iff)
    then show ?thesis
      using True Cons.prems(1) same by simp
  next
    case False
    then have xd: "k x \<noteq> k d"
      using Cons.prems(3) by simp
    have xs: "\<forall>y \<in> set xs. k x \<noteq> k y"
      using Cons.prems(1) by (auto simp: image_iff)
    have "\<forall>y \<in> set xs. k x \<noteq> k (if f y = e then d else y)"
      using xd xs by simp
    then have "k x \<notin> set (map k (map (\<lambda>i. if f i = e then d else i) xs))"
      by (auto simp: image_iff)
    then show ?thesis
      using False IH by simp
  qed
qed

text \<open>
  The path that does check: when the ids of the store are distinct and the new id is fresh,
  \<open>handleSubmit\<close> keeps the kinds and numbers of the store unique.
\<close>

lemma handleSubmit_keeps_unique:
  assumes "unique_numbers invoices" "distinct (map id' invoices)" "uuid \<notin> set (map id' invoices)"
  shows "unique_numbers (snd (handleSubmit invoices nifError editingId activeTab uuid confirmed form))"
proof -
  define d where "d = invoiceData editingId activeTab uuid form"
  show ?thesis
  proof (cases "nifError \<or> find_duplicate invoices d \<noteq> None")
    case True
    then show ?thesis
      using assms(1) by (auto simp: handleSubmit_def Let_def d_def)
  next
    case False
    then have nodup: "\<forall>i \<in> set invoices. id' i \<noteq> id' d \<longrightarrow> (type i, number i) \<noteq> (type d, number d)"
      using find_duplicate_iff [of invoices d] by auto
    show ?thesis
    proof (cases "truthy_string editingId")
      case True
      then obtain e where e: "editingId = Some e" "e \<noteq> []"
        by (auto simp: truthy_string_def split: option.splits)
      then have ide: "id' d = e"
        by (simp add: d_def invoiceData_def truthy_string_def)
      have "(\<lambda>iv. if Some (id' iv) = editingId then d else iv) = (\<lambda>i. if id' i = e then d else i)"
        using e by auto
      then have "unique_numbers (map (\<lambda>iv. if Some (id' iv) = editingId then d else iv) invoices)"
        unfolding unique_numbers_def
        using replace_keeps_distinct [of "\<lambda>i. (type i, number i)" invoices id' e d] assms(1,2) nodup ide
        by (simp add: unique_numbers_def)
      then show ?thesis
        using True False assms(1) by (simp add: handleSubmit_def Let_def d_def [symmetric])
    next
      case f: False
      then have "id' d = uuid"
        by (simp add: d_def invoiceData_def)
      then have "(type d, number d) \<notin> set (map (\<lambda>i. (type i, number i)) invoices)"
        using nodup assms(3) by (fastforce simp: image_iff)
      then have "unique_numbers (invoices @ [d])"
        using assms(1) by (simp add: unique_numbers_def)
      then show ?thesis
        using f False by (simp add: handleSubmit_def Let_def d_def [symmetric])
    qed
  qed
qed

lemma stored_fields:
  "id' stored_1 = ''1''" "number stored_1 = ''A-25-1''" "type stored_1 = INCOME"
  "id' stored_2 = ''2''" "number stored_2 = ''A-25-2''" "type stored_2 = INCOME"
  "id' imported_row = ''3''" "number imported_row = ''A-25-1''" "type imported_row = INCOME"
  by (simp_all add: stored_1_def stored_2_def imported_row_def blank_invoice_def)

text \<open>
  Claim C8 fails on the code. \<open>handleBulkImport\<close> appends the parsed rows without comparing
  them with the store: importing a row with the kind and the number of a stored invoice
  leaves two invoices with that kind and number, while \<open>handleSubmit\<close> rejects the same
  invoice as a duplicate.
\<close>

theorem bulk_import_stores_duplicate:
  "unique_numbers [stored_1] \<and>
   handleBulkImport [stored_1] (Some [imported_row]) True = [stored_1, imported_row] \<and>
   \<not> unique_numbers (handleBulkImport [stored_1] (Some [imported_row]) True) \<and>
   handleSubmit [stored_1] False None TabIncome ''3'' True imported_row = (DuplicateAlert, [stored_1])"
proof -
  have 1: "unique_numbers [stored_1]"
    by (simp add: unique_numbers_def)
  have 2: "handleBulkImport [stored_1] (Some [imported_row]) True = [stored_1, imported_row]"
    by (simp add: handleBulkImport_def)
  have 3: "\<not> unique_numbers [stored_1, imported_row]"
    by (simp add: unique_numbers_def stored_fields)
  have d: "invoiceData None TabIncome ''3'' imported_row = imported_row\<lparr>deductible := None\<rparr>"
    by (simp add: invoiceData_def truthy_string_def imported_row_def blank_invoice_def)
  have "find_duplicate [stored_1] (imported_row\<lparr>deductible := None\<rparr>) \<noteq> None"
    unfolding find_duplicate_iff by (simp add: stored_fields)
  then have 4: "handleSubmit [stored_1] False None TabIncome ''3'' True imported_row = (DuplicateAlert, [stored_1])"
    by (simp add: handleSubmit_def Let_def d)
  show ?thesis using 1 2 3 4 by simp
qed






end
